theory Spec2Isabelle
  imports Complex_Main "HOL-Library.Multiset"
begin

section \<open>Visual Product Matcher: the similarity and ranking pipeline of app.py\<close>

text \<open>
  The theory embeds the functions of \<^verbatim>\<open>src/app.py\<close> that the properties below are about:
  \<^verbatim>\<open>analyze_image\<close>, \<^verbatim>\<open>build_query_embedding\<close>, \<^verbatim>\<open>calculate_similarity\<close>,
  \<^verbatim>\<open>get_product_embedding\<close>, \<^verbatim>\<open>search_products\<close> and \<^verbatim>\<open>get_products\<close>.

  Conventions of the model.
  \<^item> A Python \<^verbatim>\<open>str\<close> is a HOL \<open>string\<close>; a \<open>char\<close> stands for the code point of the same
    number, so the strings of the model are the Python strings whose code points are below 256.
    \<^verbatim>\<open>str.lower\<close> and the whitespace of \<^verbatim>\<open>str.split\<close> and \<^verbatim>\<open>str.strip\<close> are written out
    for these code points.
  \<^item> A Python \<^verbatim>\<open>float\<close> is the rational number it denotes. \<open>calculate_similarity\<close> is
    the scorer in exact arithmetic; \<open>calculate_similarity_float\<close> is the scorer with every
    operation rounded to the nearest binary64 double, and \<^verbatim>\<open>round\<close> acts on that double.
  \<^item> An exception is a value of \<open>py_error\<close>; a function that can raise returns
    \<open>py_error + 'a\<close>, with \<open>Inl\<close> for the exception.
  \<^item> The module globals \<^verbatim>\<open>PRODUCTS\<close>, \<^verbatim>\<open>GEMINI_ENABLED\<close> and
    \<^verbatim>\<open>product_embeddings_cache\<close> are the fields of the record \<open>app_state\<close>, passed to the
    functions that read them and returned by the functions that write them.
\<close>

subsection \<open>Python strings\<close>

datatype py_error =
    ZeroDivisionError | TypeError | AttributeError | KeyError
  | ProviderError \<comment> \<open>any exception of the vision provider's client\<close>
  | ImageError \<comment> \<open>any exception of PIL's \<^verbatim>\<open>Image.open\<close> or \<^verbatim>\<open>convert\<close>\<close>
  | FetchError \<comment> \<open>any exception of \<^verbatim>\<open>requests.get\<close> or \<^verbatim>\<open>raise_for_status\<close>\<close>
  | BadRequestError \<comment> \<open>Flask's exception for a JSON body that does not parse\<close>

text \<open>\<^verbatim>\<open>str.lower\<close> on the code points below 256: A-Z, and the Latin-1 capitals
  (192 to 222 without the multiplication sign 215), move up by 32.\<close>

definition py_lower_char :: "char \<Rightarrow> char" where
  "py_lower_char c =
     (let n = (of_char c :: nat)
      in if (65 \<le> n \<and> n \<le> 90) \<or> (192 \<le> n \<and> n \<le> 222 \<and> n \<noteq> 215)
         then char_of (n + 32) else c)"

definition py_lower :: "string \<Rightarrow> string" where
  "py_lower s = map py_lower_char s"

text \<open>The whitespace of \<^verbatim>\<open>str.split()\<close> and \<^verbatim>\<open>str.strip()\<close> below 256: tab to carriage
  return, the four separators 28 to 31, space, next-line 133 and no-break space 160.\<close>

definition py_isspace :: "char \<Rightarrow> bool" where
  "py_isspace c =
     (let n = (of_char c :: nat)
      in (9 \<le> n \<and> n \<le> 13) \<or> (28 \<le> n \<and> n \<le> 32) \<or> n = 133 \<or> n = 160)"

text \<open>\<^verbatim>\<open>s.split()\<close>: the maximal runs of non-whitespace characters, in order. The first
  argument of \<open>split_ws\<close> is the word read so far.\<close>

fun split_ws :: "string \<Rightarrow> string \<Rightarrow> string list" where
  "split_ws w [] = (if w = [] then [] else [w])"
| "split_ws w (c # cs) =
     (if py_isspace c then (if w = [] then split_ws [] cs else w # split_ws [] cs)
      else split_ws (w @ [c]) cs)"

definition py_split :: "string \<Rightarrow> string list" where
  "py_split s = split_ws [] s"

text \<open>\<^verbatim>\<open>s.strip()\<close>.\<close>

definition py_strip :: "string \<Rightarrow> string" where
  "py_strip s = rev (dropWhile py_isspace (rev (dropWhile py_isspace s)))"

text \<open>\<^verbatim>\<open>s.startswith(p)\<close> and \<^verbatim>\<open>needle in haystack\<close> on strings.\<close>

fun py_startswith :: "string \<Rightarrow> string \<Rightarrow> bool" where
  "py_startswith s [] = True"
| "py_startswith [] (p # ps) = False"
| "py_startswith (c # cs) (p # ps) = (c = p \<and> py_startswith cs ps)"

fun py_contains :: "string \<Rightarrow> string \<Rightarrow> bool" where
  "py_contains needle [] = (needle = [])"
| "py_contains needle (c # cs) = (py_startswith (c # cs) needle \<or> py_contains needle cs)"

text \<open>\<^verbatim>\<open>sep.join(xs)\<close>.\<close>

fun py_join :: "string \<Rightarrow> string list \<Rightarrow> string" where
  "py_join sep [] = []"
| "py_join sep [x] = x"
| "py_join sep (x # y # ys) = x @ sep @ py_join sep (y # ys)"

subsection \<open>The similarity scorer\<close>

text \<open>\<^verbatim>\<open>a / b\<close> on two integers: Python raises \<^verbatim>\<open>ZeroDivisionError\<close> for \<open>b = 0\<close>.\<close>

definition py_truediv :: "nat \<Rightarrow> nat \<Rightarrow> py_error + rat" where
  "py_truediv a b = (if b = 0 then Inl ZeroDivisionError else Inr (of_nat a / of_nat b))"

definition category_keywords :: "string list" where
  "category_keywords =
     [''phone'', ''laptop'', ''camera'', ''shoes'', ''watch'', ''headphones'',
      ''tablet'', ''monitor'', ''keyboard'', ''mouse'', ''speaker'', ''jacket'',
      ''jeans'', ''sunglasses'', ''chair'', ''desk'', ''bottle'', ''vacuum'',
      ''smartphone'', ''computer'', ''footwear'', ''clothing'', ''furniture'',
      ''electronics'', ''accessory'', ''home'', ''device'']"

definition calculate_similarity :: "string \<Rightarrow> string \<Rightarrow> py_error + rat" where
  "calculate_similarity embedding1 embedding2 =
     (let words1 = set (py_split (py_lower embedding1));
          words2 = set (py_split (py_lower embedding2));
          intersection = words1 \<inter> words2;
          union = words1 \<union> words2
      in if card union = 0 then Inr 0
         else case py_truediv (card intersection) (card union) of
                Inl e \<Rightarrow> Inl e
              | Inr base_similarity \<Rightarrow>
                  (let category_match =
                         list_ex (\<lambda>keyword. py_contains keyword (py_lower embedding1)
                                           \<and> py_contains keyword (py_lower embedding2))
                                 category_keywords;
                       similarity = (if category_match then base_similarity * (13 / 10)
                                     else base_similarity)
                   in Inr (min similarity 1)))"

subsection \<open>Binary floating point\<close>

text \<open>A Python \<^verbatim>\<open>float\<close> is an IEEE 754 binary64 number; its value in the model is the
  rational number it denotes. \<open>py_float x\<close> is the double nearest to \<open>x\<close>, a tie going to the
  even mantissa: the result of every correctly rounded operation whose exact result is \<open>x\<close>.
  Below \<open>2 ^ -1022\<close> the spacing of the subnormal numbers is used; overflow to infinity
  (magnitudes from \<open>2 ^ 1024\<close>) is not modelled, the scores being at most 1.3.\<close>

text \<open>The number of binary digits of a positive integer.\<close>

function bit_length :: "int \<Rightarrow> int" where
  "bit_length n = (if n \<le> 0 then 0 else 1 + bit_length (n div 2))"
  by pat_completeness auto
termination
  by (relation "measure nat") auto

declare bit_length.simps [simp del]

definition pow2 :: "int \<Rightarrow> rat" where
  "pow2 e = (if 0 \<le> e then 2 ^ nat e else 1 / 2 ^ nat (- e))"

text \<open>The nearest integer, a tie going to the even one.\<close>

definition round_half_even :: "rat \<Rightarrow> int" where
  "round_half_even y =
     (let f = \<lfloor>y\<rfloor>; frac = y - of_int f
      in if frac < 1 / 2 then f
         else if frac > 1 / 2 then f + 1
         else if even f then f else f + 1)"

text \<open>For a positive \<open>x = p / q\<close> in lowest terms, the exponent \<open>e\<close> with
  \<open>2 ^ e \<le> x < 2 ^ (e + 1)\<close>: the difference of the bit lengths, or one less.\<close>

definition binary_exponent :: "rat \<Rightarrow> int" where
  "binary_exponent x =
     (case quotient_of x of
        (p, q) \<Rightarrow>
          (let e0 = bit_length p - bit_length q
           in if pow2 e0 \<le> x then e0 else e0 - 1))"

definition py_float :: "rat \<Rightarrow> rat" where
  "py_float x =
     (if x = 0 then 0
      else (let e = max (binary_exponent \<bar>x\<bar>) (- 1022);
                quantum = pow2 (e - 52)
            in of_int (round_half_even (x / quantum)) * quantum))"

text \<open>\<^verbatim>\<open>a / b\<close> on two integers as the interpreter computes it: the correctly rounded
  quotient.\<close>

definition py_truediv_float :: "nat \<Rightarrow> nat \<Rightarrow> py_error + rat" where
  "py_truediv_float a b =
     (if b = 0 then Inl ZeroDivisionError else Inr (py_float (of_nat a / of_nat b)))"

text \<open>\<^verbatim>\<open>calculate_similarity\<close> as the interpreter runs it: the body of \<open>calculate_similarity\<close>
  above, with the quotient rounded to a double, the literal \<^verbatim>\<open>1.3\<close> read as the nearest
  double and the product rounded to a double. \<open>calculate_similarity\<close> is the same function in
  exact arithmetic; the search handler, whose \<^verbatim>\<open>round\<close> depends on the last bit of the
  score, calls this one.\<close>

definition calculate_similarity_float :: "string \<Rightarrow> string \<Rightarrow> py_error + rat" where
  "calculate_similarity_float embedding1 embedding2 =
     (let words1 = set (py_split (py_lower embedding1));
          words2 = set (py_split (py_lower embedding2));
          intersection = words1 \<inter> words2;
          union = words1 \<union> words2
      in if card union = 0 then Inr 0
         else case py_truediv_float (card intersection) (card union) of
                Inl e \<Rightarrow> Inl e
              | Inr base_similarity \<Rightarrow>
                  (let category_match =
                         list_ex (\<lambda>keyword. py_contains keyword (py_lower embedding1)
                                           \<and> py_contains keyword (py_lower embedding2))
                                 category_keywords;
                       similarity = (if category_match
                                     then py_float (base_similarity * py_float (13 / 10))
                                     else base_similarity)
                   in Inr (min similarity 1)))"

subsection \<open>The catalog and the embedding cache\<close>

text \<open>A product record of \<^verbatim>\<open>products.json\<close>; the field \<open>product_id\<close> is the key \<^verbatim>\<open>'id'\<close>.\<close>

record product =
  product_id :: int
  name :: string
  category :: string
  price :: rat
  image_url :: string
  description :: string

record app_state =
  PRODUCTS :: "product list"
  GEMINI_ENABLED :: bool
  product_embeddings_cache :: "int \<rightharpoonup> string"

definition get_product_embedding :: "product \<Rightarrow> app_state \<Rightarrow> string \<times> app_state" where
  "get_product_embedding product st =
     (case product_embeddings_cache st (product_id product) of
        Some cached \<Rightarrow> (cached, st)
      | None \<Rightarrow>
          (let description_text =
                 name product @ '' '' @ category product @ '' '' @ description product;
               embedding = py_lower description_text
           in (embedding,
               st\<lparr>product_embeddings_cache :=
                    (product_embeddings_cache st)(product_id product \<mapsto> embedding)\<rparr>)))"

text \<open>The state after a sequence of calls of \<^verbatim>\<open>get_product_embedding\<close>, one for each
  product of the list, in order.\<close>

fun embedding_calls :: "product list \<Rightarrow> app_state \<Rightarrow> app_state" where
  "embedding_calls [] st = st"
| "embedding_calls (p # ps) st = embedding_calls ps (snd (get_product_embedding p st))"

subsection \<open>JSON values and Python dictionaries\<close>

text \<open>The values \<^verbatim>\<open>json.loads\<close> returns. A dictionary is the list of its items in insertion
  order, with distinct keys; \<^verbatim>\<open>int\<close> and \<^verbatim>\<open>float\<close> are one constructor.\<close>

datatype json =
    JNull | JBool bool | JNumber rat | JString string
  | JArray "json list" | JObject "(string \<times> json) list"

type_synonym py_dict = "(string \<times> json) list"

text \<open>\<^verbatim>\<open>d.get(k, default)\<close>, \<^verbatim>\<open>d.setdefault(k, v)\<close> and \<^verbatim>\<open>d[k] = v\<close>.\<close>

definition dict_get :: "py_dict \<Rightarrow> string \<Rightarrow> json \<Rightarrow> json" where
  "dict_get d k default_value = (case map_of d k of Some v \<Rightarrow> v | None \<Rightarrow> default_value)"

definition dict_setdefault :: "py_dict \<Rightarrow> string \<Rightarrow> json \<Rightarrow> py_dict" where
  "dict_setdefault d k v = (case map_of d k of Some old \<Rightarrow> d | None \<Rightarrow> d @ [(k, v)])"

fun dict_set :: "py_dict \<Rightarrow> string \<Rightarrow> json \<Rightarrow> py_dict" where
  "dict_set [] k v = [(k, v)]"
| "dict_set ((k', v') # d) k v = (if k' = k then (k, v) # d else (k', v') # dict_set d k v)"

text \<open>Truth value of a JSON value in \<^verbatim>\<open>if p\<close>, and \<^verbatim>\<open>isinstance(v, list)\<close>.\<close>

fun py_truthy :: "json \<Rightarrow> bool" where
  "py_truthy JNull = False"
| "py_truthy (JBool b) = b"
| "py_truthy (JNumber r) = (r \<noteq> 0)"
| "py_truthy (JString s) = (s \<noteq> [])"
| "py_truthy (JArray xs) = (xs \<noteq> [])"
| "py_truthy (JObject kvs) = (kvs \<noteq> [])"

fun is_list :: "json \<Rightarrow> bool" where
  "is_list (JArray xs) = True"
| "is_list v = False"

fun is_str :: "json \<Rightarrow> bool" where
  "is_str (JString s) = True"
| "is_str v = False"

fun the_str :: "json \<Rightarrow> string" where
  "the_str (JString s) = s"
| "the_str v = []"

subsection \<open>The image analyzer\<close>

text \<open>What the call of the vision provider does: an exception (of \<^verbatim>\<open>GenerativeModel\<close>,
  \<^verbatim>\<open>generate_content\<close> or the property \<^verbatim>\<open>response.text\<close>), or a response whose text is
  \<^verbatim>\<open>None\<close> or a string.\<close>

datatype provider_outcome = ProviderRaises | ProviderText "string option"

text \<open>\<^verbatim>\<open>s.split(sep)\<close> with a one-character separator, \<^verbatim>\<open>s.find(c)\<close> and \<^verbatim>\<open>s.rfind(c)\<close>
  (\<open>None\<close> for \<^verbatim>\<open>-1\<close>).\<close>

fun py_split_on :: "char \<Rightarrow> string \<Rightarrow> string list" where
  "py_split_on sep [] = [[]]"
| "py_split_on sep (c # cs) =
     (if c = sep then [] # py_split_on sep cs
      else (case py_split_on sep cs of
              [] \<Rightarrow> [[c]]
            | w # ws \<Rightarrow> (c # w) # ws))"

fun py_find :: "char \<Rightarrow> string \<Rightarrow> nat option" where
  "py_find c [] = None"
| "py_find c (x # xs) = (if x = c then Some 0 else map_option Suc (py_find c xs))"

definition py_rfind :: "char \<Rightarrow> string \<Rightarrow> nat option" where
  "py_rfind c s = map_option (\<lambda>i. length s - 1 - i) (py_find c (rev s))"

definition code_fence :: string where
  "code_fence = [CHR 0x60, CHR 0x60, CHR 0x60]"

text \<open>The dictionary literal that \<^verbatim>\<open>analyze_image\<close> writes three times, with three summaries.\<close>

definition fallback_description :: "string \<Rightarrow> py_dict" where
  "fallback_description summary =
     [(''summary'', JString summary), (''category'', JString ''Unknown''),
      (''colors'', JArray []), (''materials'', JArray []), (''style'', JArray []),
      (''objects'', JArray []), (''suggested_tags'', JArray [])]"

text \<open>Lines 108 to 116: the fences of a markdown code block are removed.\<close>

definition strip_code_fence :: "string \<Rightarrow> string" where
  "strip_code_fence text =
     (if py_startswith text code_fence then
        (let lines0 = py_split_on (CHR 0x0A) text;
             lines1 = (case lines0 of
                         [] \<Rightarrow> lines0
                       | l # ls \<Rightarrow> if py_startswith l code_fence then ls else lines0);
             lines2 = (if lines1 \<noteq> [] \<and> py_strip (last lines1) = code_fence
                       then butlast lines1 else lines1)
         in py_strip (py_join [CHR 0x0A] lines2))
      else text)"

text \<open>Lines 119 to 124: the slice from the first opening brace to the last closing brace.\<close>

definition extract_json_text :: "string \<Rightarrow> string" where
  "extract_json_text text =
     (case (py_find (CHR ''{'') text, py_rfind (CHR ''}'') text) of
        (Some start, Some end) \<Rightarrow>
          if end > start then take (end + 1 - start) (drop start text) else text
      | _ \<Rightarrow> text)"

text \<open>Lines 142 to 146. \<^verbatim>\<open>setdefault\<close> is a method of dictionaries only: on any other JSON
  value the attribute lookup raises.\<close>

definition normalize_list_field :: "py_dict \<Rightarrow> string \<Rightarrow> py_dict" where
  "normalize_list_field analysis k =
     (let v = dict_get analysis k (JArray [])
      in dict_set analysis k (if is_list v then v else JArray []))"

definition list_fields :: "string list" where
  "list_fields = [''colors'', ''materials'', ''style'', ''objects'', ''suggested_tags'']"

definition normalize_analysis :: "json \<Rightarrow> py_error + py_dict" where
  "normalize_analysis analysis =
     (case analysis of
        JObject d \<Rightarrow>
          (let d1 = dict_setdefault d ''summary'' (JString []);
               d2 = dict_setdefault d1 ''category'' (JString ''Unknown'')
           in Inr (foldl normalize_list_field d2 list_fields))
      | _ \<Rightarrow> Inl AttributeError)"

text \<open>The body of the \<^verbatim>\<open>try\<close> of \<^verbatim>\<open>analyze_image\<close> (lines 92 to 147). \<^verbatim>\<open>json.loads\<close> is the
  parameter \<open>json_loads\<close>, \<open>None\<close> when it raises.\<close>

definition analyze_image_try ::
  "(string \<Rightarrow> json option) \<Rightarrow> provider_outcome \<Rightarrow> py_error + py_dict" where
  "analyze_image_try json_loads outcome =
     (case outcome of
        ProviderRaises \<Rightarrow> Inl ProviderError
      | ProviderText response_text \<Rightarrow>
          (let text = strip_code_fence
                        (py_strip (case response_text of None \<Rightarrow> [] | Some t \<Rightarrow> t));
               json_text = extract_json_text text;
               analysis =
                 (case json_loads json_text of
                    Some parsed \<Rightarrow> parsed
                  | None \<Rightarrow>
                      JObject (fallback_description
                                 (if text \<noteq> [] then take 600 text
                                  else ''Unable to analyze image.'')))
           in normalize_analysis analysis))"

text \<open>\<^verbatim>\<open>analyze_image\<close>. The first component of the result counts the calls of the provider
  that were made; the second is the returned dictionary, or the exception that leaves the
  function.\<close>

definition analyze_image ::
  "(string \<Rightarrow> json option) \<Rightarrow> bool \<Rightarrow> provider_outcome \<Rightarrow> nat \<times> (py_error + py_dict)" where
  "analyze_image json_loads gemini_enabled outcome =
     (if \<not> gemini_enabled then
        (0, Inr (fallback_description
                   ''Image uploaded. AI analysis is unavailable in offline mode.''))
      else
        (case analyze_image_try json_loads outcome of
           Inr analysis \<Rightarrow> (1, Inr analysis)
         | Inl e \<Rightarrow> (1, Inr (fallback_description ''Unable to analyze image at this time.''))))"

subsection \<open>The query embedder\<close>

text \<open>\<^verbatim>\<open>str(v)\<close>: a string is itself; for the other values Python's \<^verbatim>\<open>str\<close> is the
  parameter \<open>repr\<close>.\<close>

definition py_str :: "(json \<Rightarrow> string) \<Rightarrow> json \<Rightarrow> string" where
  "py_str repr v = (case v of JString s \<Rightarrow> s | _ \<Rightarrow> repr v)"

text \<open>\<^verbatim>\<open>' '.join(map(str, v))\<close>: a list gives its elements, a string its characters, a
  dictionary its keys; \<^verbatim>\<open>None\<close>, a boolean and a number are not iterable.\<close>

definition join_str_field :: "(json \<Rightarrow> string) \<Rightarrow> json \<Rightarrow> py_error + json" where
  "join_str_field repr v =
     (case v of
        JArray xs \<Rightarrow> Inr (JString (py_join '' '' (map (py_str repr) xs)))
      | JString s \<Rightarrow> Inr (JString (py_join '' '' (map (\<lambda>c. [c]) s)))
      | JObject kvs \<Rightarrow> Inr (JString (py_join '' '' (map fst kvs)))
      | _ \<Rightarrow> Inl TypeError)"

text \<open>\<^verbatim>\<open>' '.join(xs)\<close> on a list of values: an item that is not a string raises.\<close>

definition join_parts :: "json list \<Rightarrow> py_error + string" where
  "join_parts xs =
     (if list_all is_str xs then Inr (py_join '' '' (map the_str xs)) else Inl TypeError)"

definition build_query_embedding :: "(json \<Rightarrow> string) \<Rightarrow> py_dict \<Rightarrow> py_error + string" where
  "build_query_embedding repr analysis =
     (case (join_str_field repr (dict_get analysis ''colors'' (JArray [])),
            join_str_field repr (dict_get analysis ''materials'' (JArray [])),
            join_str_field repr (dict_get analysis ''style'' (JArray [])),
            join_str_field repr (dict_get analysis ''objects'' (JArray [])),
            join_str_field repr (dict_get analysis ''suggested_tags'' (JArray []))) of
        (Inr colors, Inr materials, Inr style, Inr objects, Inr suggested_tags) \<Rightarrow>
          (let parts = [dict_get analysis ''summary'' (JString []),
                        dict_get analysis ''category'' (JString []),
                        colors, materials, style, objects, suggested_tags]
           in case join_parts (filter py_truthy parts) of
                Inl e \<Rightarrow> Inl e
              | Inr joined \<Rightarrow> Inr (py_strip joined))
      | _ \<Rightarrow> Inl TypeError)"

subsection \<open>The search handler\<close>

text \<open>\<^verbatim>\<open>round(x, ndigits)\<close> on a double \<open>x\<close>: the exact value of \<open>x\<close> is rounded to the nearest
  multiple of \<open>10 ^ -ndigits\<close>, a tie going to the even one, and the result is the double
  nearest to that decimal number.\<close>

definition py_round :: "rat \<Rightarrow> nat \<Rightarrow> rat" where
  "py_round x ndigits =
     py_float (of_int (round_half_even (x * 10 ^ ndigits)) / 10 ^ ndigits)"

text \<open>\<^verbatim>\<open>xs.sort(key=key, reverse=True)\<close>. Python's sort is stable, also with
  \<^verbatim>\<open>reverse=True\<close>: the list is reversed, sorted in ascending order of the key by a stable
  sort, and reversed again. The stable sort of the model is the insertion sort \<open>sort_key\<close>.\<close>

definition py_sort_reverse :: "('a \<Rightarrow> 'k::linorder) \<Rightarrow> 'a list \<Rightarrow> 'a list" where
  "py_sort_reverse key xs = rev (sort_key key (rev xs))"

text \<open>An entry \<^verbatim>\<open>{'product': ..., 'similarity': ...}\<close> of the result list.\<close>

record ranked =
  product :: product
  similarity :: rat

text \<open>The request as the handler reads it, with the outcome of the input and output it
  triggers: the multipart field \<^verbatim>\<open>image\<close> (its file name, and whether PIL opens and converts
  the stream), the body when the content type is JSON, whether fetching and decoding the
  image of the URL succeeds, and what the provider does when it is called.\<close>

datatype upload = Upload (filename: string) (image_opens: bool)

datatype request_body = NotJson | JsonMalformed | JsonBody json

record request =
  files_image :: "upload option"
  body :: request_body
  fetch_ok :: bool
  provider :: provider_outcome

datatype response =
    BadRequest string \<comment> \<open>status 400 with the message\<close>
  | FetchFailed py_error \<comment> \<open>status 400, \<^verbatim>\<open>Failed to fetch image from URL\<close>\<close>
  | SearchFailed py_error \<comment> \<open>status 500, \<^verbatim>\<open>Search failed\<close>\<close>
  | SearchOK py_dict "ranked list" nat \<comment> \<open>status 200: analysis, results, total_results\<close>

definition allowed_extensions :: "string list" where
  "allowed_extensions = [''png'', ''jpg'', ''jpeg'', ''gif'', ''webp'']"

text \<open>\<^verbatim>\<open>name.rsplit('.', 1)[1].lower() if '.' in name else ''\<close>.\<close>

definition file_extension :: "string \<Rightarrow> string" where
  "file_extension fname =
     (if CHR ''.'' \<in> set fname
      then py_lower (rev (takeWhile (\<lambda>c. c \<noteq> CHR ''.'') (rev fname)))
      else [])"

text \<open>\<^verbatim>\<open>k in v\<close> and \<^verbatim>\<open>v[k]\<close> for a string \<open>k\<close> and a JSON value \<open>v\<close>.\<close>

definition json_contains :: "json \<Rightarrow> string \<Rightarrow> py_error + bool" where
  "json_contains v k =
     (case v of
        JObject d \<Rightarrow> Inr (k \<in> fst ` set d)
      | JArray xs \<Rightarrow> Inr (JString k \<in> set xs)
      | JString s \<Rightarrow> Inr (py_contains k s)
      | _ \<Rightarrow> Inl TypeError)"

definition json_subscript :: "json \<Rightarrow> string \<Rightarrow> py_error + json" where
  "json_subscript v k =
     (case v of
        JObject d \<Rightarrow> (case map_of d k of Some x \<Rightarrow> Inr x | None \<Rightarrow> Inl KeyError)
      | _ \<Rightarrow> Inl TypeError)"

text \<open>The two lines \<^verbatim>\<open>image_analysis = analyze_image(image, is_url=False)\<close> and
  \<^verbatim>\<open>image_embedding = build_query_embedding(image_analysis)\<close> of both branches.\<close>

definition analyze_and_embed ::
  "(string \<Rightarrow> json option) \<Rightarrow> (json \<Rightarrow> string) \<Rightarrow> request \<Rightarrow> app_state
     \<Rightarrow> py_error + (py_dict \<times> string)" where
  "analyze_and_embed json_loads repr req st =
     (case snd (analyze_image json_loads (GEMINI_ENABLED st) (provider req)) of
        Inl e \<Rightarrow> Inl e
      | Inr image_analysis \<Rightarrow>
          (case build_query_embedding repr image_analysis of
             Inl e \<Rightarrow> Inl e
           | Inr image_embedding \<Rightarrow> Inr (image_analysis, image_embedding)))"

text \<open>Lines 363 to 420 of \<^verbatim>\<open>search_products\<close>: the response of an early return or of an
  exception, or the analysis and the query embedding.\<close>

definition read_query ::
  "(string \<Rightarrow> json option) \<Rightarrow> (json \<Rightarrow> string) \<Rightarrow> request \<Rightarrow> app_state
     \<Rightarrow> response + (py_dict \<times> string)" where
  "read_query json_loads repr req st =
     (case files_image req of
        Some file \<Rightarrow>
          if filename file = [] then Inl (BadRequest ''No file selected'')
          else if file_extension (filename file) \<notin> set allowed_extensions
          then Inl (BadRequest ''Invalid file type. Allowed: PNG, JPG, JPEG, GIF, WEBP'')
          else if \<not> image_opens file then Inl (SearchFailed ImageError)
          else (case analyze_and_embed json_loads repr req st of
                  Inl e \<Rightarrow> Inl (SearchFailed e)
                | Inr q \<Rightarrow> Inr q)
      | None \<Rightarrow>
          (case body req of
             NotJson \<Rightarrow> Inl (BadRequest ''No image file or URL provided'')
           | JsonMalformed \<Rightarrow> Inl (SearchFailed BadRequestError)
           | JsonBody v \<Rightarrow>
               (case json_contains v ''image_url'' of
                  Inl e \<Rightarrow> Inl (SearchFailed e)
                | Inr False \<Rightarrow> Inl (BadRequest ''No image file or URL provided'')
                | Inr True \<Rightarrow>
                    (case json_subscript v ''image_url'' of
                       Inl e \<Rightarrow> Inl (SearchFailed e)
                     | Inr image_url_value \<Rightarrow>
                         if \<not> py_truthy image_url_value
                         then Inl (BadRequest ''No image URL provided'')
                         else if \<not> fetch_ok req then Inl (FetchFailed FetchError)
                         else (case analyze_and_embed json_loads repr req st of
                                 Inl e \<Rightarrow> Inl (FetchFailed e)
                               | Inr q \<Rightarrow> Inr q)))))"

text \<open>The loop of lines 425 to 432; the last argument is the list \<^verbatim>\<open>similarities\<close>.\<close>

fun similarities_loop ::
  "string \<Rightarrow> product list \<Rightarrow> app_state \<Rightarrow> ranked list \<Rightarrow> (py_error + ranked list) \<times> app_state" where
  "similarities_loop image_embedding [] st similarities = (Inr similarities, st)"
| "similarities_loop image_embedding (p # ps) st similarities =
     (case get_product_embedding p st of
        (product_embedding, st') \<Rightarrow>
          (case calculate_similarity_float image_embedding product_embedding of
             Inl e \<Rightarrow> (Inl e, st')
           | Inr s \<Rightarrow>
               similarities_loop image_embedding ps st'
                 (similarities @ [\<lparr>product = p, similarity = py_round s 4\<rparr>])))"

definition search_products ::
  "(string \<Rightarrow> json option) \<Rightarrow> (json \<Rightarrow> string) \<Rightarrow> request \<Rightarrow> app_state \<Rightarrow> response \<times> app_state" where
  "search_products json_loads repr req st =
     (case read_query json_loads repr req st of
        Inl early \<Rightarrow> (early, st)
      | Inr (image_analysis, image_embedding) \<Rightarrow>
          (case similarities_loop image_embedding (PRODUCTS st) st [] of
             (Inl e, st') \<Rightarrow> (SearchFailed e, st')
           | (Inr similarities, st') \<Rightarrow>
               (let top_results = take 20 (py_sort_reverse similarity similarities)
                in (SearchOK image_analysis top_results (length top_results), st'))))"

subsection \<open>The products listing\<close>

text \<open>\<^verbatim>\<open>get_products\<close>: the argument is \<^verbatim>\<open>request.args.get('category', None)\<close>, the result
  the values of \<^verbatim>\<open>products\<close> and \<^verbatim>\<open>count\<close> of the response.\<close>

definition get_products :: "string option \<Rightarrow> app_state \<Rightarrow> product list \<times> nat" where
  "get_products category_arg st =
     (case category_arg of
        None \<Rightarrow> (PRODUCTS st, length (PRODUCTS st))
      | Some c \<Rightarrow>
          if c \<noteq> [] then
            (let filtered_products =
                   filter (\<lambda>p. py_lower (category p) = py_lower c) (PRODUCTS st)
             in (filtered_products, length filtered_products))
          else (PRODUCTS st, length (PRODUCTS st)))"

subsection \<open>The notions of the specification\<close>

text \<open>The lowercase whitespace-token set of a string, the Jaccard coefficient of two strings
  (0 when the union is empty), and the keyword check: some keyword of the list is a substring
  of both lowercased strings.\<close>

definition tokens :: "string \<Rightarrow> string set" where
  "tokens s = set (py_split (py_lower s))"

definition jaccard :: "string \<Rightarrow> string \<Rightarrow> rat" where
  "jaccard a b =
     (if tokens a \<union> tokens b = {} then 0
      else of_nat (card (tokens a \<inter> tokens b)) / of_nat (card (tokens a \<union> tokens b)))"

definition keyword_in_both :: "string \<Rightarrow> string \<Rightarrow> bool" where
  "keyword_in_both a b =
     (\<exists>keyword \<in> set category_keywords.
        py_contains keyword (py_lower a) \<and> py_contains keyword (py_lower b))"

text \<open>The score of the specification: the Jaccard coefficient, multiplied by 1.3 and clamped
  to 1 when a keyword is in both strings.\<close>

definition similarity_score :: "string \<Rightarrow> string \<Rightarrow> rat" where
  "similarity_score a b =
     (if keyword_in_both a b then min (jaccard a b * (13 / 10)) 1 else jaccard a b)"

text \<open>The same score as the doubles give it: the quotient, the factor 1.3 and the product
  each rounded to the nearest double.\<close>

definition float_jaccard :: "string \<Rightarrow> string \<Rightarrow> rat" where
  "float_jaccard a b =
     (if tokens a \<union> tokens b = {} then 0
      else py_float (of_nat (card (tokens a \<inter> tokens b)) / of_nat (card (tokens a \<union> tokens b))))"

definition float_score :: "string \<Rightarrow> string \<Rightarrow> rat" where
  "float_score a b =
     min (if keyword_in_both a b then py_float (float_jaccard a b * py_float (13 / 10))
          else float_jaccard a b) 1"

text \<open>Two strings that differ only in letter case: the same length, and at each position two
  characters with the same lowercase form.\<close>

definition same_ignoring_case :: "string \<Rightarrow> string \<Rightarrow> bool" where
  "same_ignoring_case a b = list_all2 (\<lambda>x y. py_lower_char x = py_lower_char y) a b"

text \<open>The catalog in iteration order, each product with the rounded score of its embedding
  against the query, the embedding being what the cache lookup returns at that point.\<close>

fun scored_products :: "string \<Rightarrow> product list \<Rightarrow> app_state \<Rightarrow> ranked list" where
  "scored_products q [] st = []"
| "scored_products q (p # ps) st =
     \<lparr>product = p,
      similarity = py_round (float_score q (fst (get_product_embedding p st))) 4\<rparr>
     # scored_products q ps (snd (get_product_embedding p st))"

text \<open>The query embedding of the specification, for a description whose summary and category
  are strings and whose list fields have been stringified: the non-empty parts, in the fixed
  order, joined by single spaces and trimmed.\<close>

definition spec_query_embedding ::
  "string \<Rightarrow> string \<Rightarrow> string list \<Rightarrow> string list \<Rightarrow> string list \<Rightarrow> string list \<Rightarrow> string list
     \<Rightarrow> string" where
  "spec_query_embedding summary category_text colors materials style objects suggested_tags =
     py_strip (py_join '' ''
       (filter (\<lambda>part. part \<noteq> [])
          [summary, category_text, py_join '' '' colors, py_join '' '' materials,
           py_join '' '' style, py_join '' '' objects, py_join '' '' suggested_tags]))"

text \<open>Stand-ins for \<^verbatim>\<open>json.loads\<close> and for \<^verbatim>\<open>str\<close> on non-strings, used where a property is
  evaluated on a concrete input: the three texts \<^verbatim>\<open>{"summary": 42}\<close>, \<^verbatim>\<open>[1, 2]\<close> and
  \<^verbatim>\<open>{"summary": "red running shoes", "category": "Footwear"}\<close> parse to their values and
  every other text is rejected; a non-string prints as a question mark.\<close>

definition quoted :: "string \<Rightarrow> string" where
  "quoted s = CHR 0x22 # s @ [CHR 0x22]"

definition summary_42_text :: string where
  "summary_42_text = ''{'' @ quoted ''summary'' @ '': 42}''"

definition shoes_text :: string where
  "shoes_text =
     ''{'' @ quoted ''summary'' @ '': '' @ quoted ''red running shoes'' @ '', '' @
     quoted ''category'' @ '': '' @ quoted ''Footwear'' @ ''}''"

definition example_loads :: "string \<Rightarrow> json option" where
  "example_loads s =
     (if s = summary_42_text then Some (JObject [(''summary'', JNumber 42)])
      else if s = ''[1, 2]'' then Some (JArray [JNumber 1, JNumber 2])
      else if s = shoes_text
      then Some (JObject [(''summary'', JString ''red running shoes''),
                          (''category'', JString ''Footwear'')])
      else None)"

definition example_repr :: "json \<Rightarrow> string" where
  "example_repr v = ''?''"

text \<open>A catalog of two products, a state with an empty cache, and the upload of an image that
  the provider describes by \<open>shoes_text\<close>.\<close>

definition example_product :: product where
  "example_product =
     \<lparr>product_id = 1, name = ''Red Sneaker'', category = ''Footwear'', price = 50,
      image_url = ''https://example.com/1.jpg'', description = ''running shoes''\<rparr>"

definition example_lamp :: product where
  "example_lamp =
     \<lparr>product_id = 2, name = ''Desk Lamp'', category = ''Home'', price = 20,
      image_url = ''https://example.com/2.jpg'', description = ''warm light''\<rparr>"

definition example_state :: app_state where
  "example_state =
     \<lparr>PRODUCTS = [example_lamp, example_product], GEMINI_ENABLED = True,
      product_embeddings_cache = Map.empty\<rparr>"

definition example_request :: request where
  "example_request =
     \<lparr>files_image = Some (Upload ''shoe.PNG'' True), body = NotJson, fetch_ok = False,
      provider = ProviderText (Some shoes_text)\<rparr>"

text \<open>Two requests on an empty catalog: one without an image file and without a JSON body, and
  the upload of an image that the provider describes by \<^verbatim>\<open>{"summary": 42}\<close>.\<close>

definition empty_catalog_state :: app_state where
  "empty_catalog_state =
     \<lparr>PRODUCTS = [], GEMINI_ENABLED = True, product_embeddings_cache = Map.empty\<rparr>"

definition no_image_request :: request where
  "no_image_request =
     \<lparr>files_image = None, body = NotJson, fetch_ok = False, provider = ProviderRaises\<rparr>"

definition summary_42_request :: request where
  "summary_42_request =
     \<lparr>files_image = Some (Upload ''a.png'' True), body = NotJson, fetch_ok = False,
      provider = ProviderText (Some summary_42_text)\<rparr>"

text \<open>Two embeddings with one common token among sixteen and the keyword \<^verbatim>\<open>phone\<close> in both:
  the exact score is 13/160 = 0.08125, the double is just above it.\<close>

definition phone_query :: string where
  "phone_query = ''phone a b c d e f g''"

definition phone_product_text :: string where
  "phone_product_text = ''phone h i j k l m n o''"

definition example_phone :: product where
  "example_phone =
     \<lparr>product_id = 3, name = ''Phone'', category = ''h'', price = 300,
      image_url = ''https://example.com/3.jpg'', description = ''i j k l m n o''\<rparr>"

text \<open>A structured description with an empty \<^verbatim>\<open>materials\<close> list and a number among the tags.\<close>

definition example_description :: py_dict where
  "example_description =
     [(''summary'', JString ''A red shoe.''), (''category'', JString ''Footwear''),
      (''colors'', JArray [JString ''red'', JString ''white'']), (''materials'', JArray []),
      (''style'', JArray [JString ''sporty'']), (''objects'', JArray []),
      (''suggested_tags'', JArray [JString ''shoe'', JNumber 3])]"

section \<open>Properties of the similarity scorer\<close>

lemma finite_tokens: "finite (tokens s)"
  by (simp add: tokens_def)

lemma jaccard_bounds: "0 \<le> jaccard a b \<and> jaccard a b \<le> 1"
proof (cases "tokens a \<union> tokens b = {}")
  case True
  then show ?thesis by (simp add: jaccard_def)
next
  case False
  have le: "card (tokens a \<inter> tokens b) \<le> card (tokens a \<union> tokens b)"
    by (rule card_mono) (auto simp: finite_tokens)
  from False have pos: "0 < card (tokens a \<union> tokens b)"
    by (simp add: finite_tokens card_gt_0_iff)
  have "(of_nat (card (tokens a \<inter> tokens b)) :: rat) / of_nat (card (tokens a \<union> tokens b)) \<le> 1"
    using le pos by (simp add: divide_le_eq_1_pos)
  with False show ?thesis by (simp add: jaccard_def)
qed

text \<open>The source function, with the token sets and the keyword check folded into the
  notions of the specification.\<close>

lemma calculate_similarity_unfold:
  "calculate_similarity a b =
     (if card (tokens a \<union> tokens b) = 0 then Inr 0
      else case py_truediv (card (tokens a \<inter> tokens b)) (card (tokens a \<union> tokens b)) of
             Inl e \<Rightarrow> Inl e
           | Inr base_similarity \<Rightarrow>
               Inr (min (if keyword_in_both a b then base_similarity * (13 / 10)
                         else base_similarity) 1))"
  unfolding calculate_similarity_def tokens_def keyword_in_both_def Let_def list_ex_iff
  by (rule refl)

text \<open>The division is never reached with an empty union, and the result is the score of
  the specification.\<close>

lemma calculate_similarity_score: "calculate_similarity a b = Inr (similarity_score a b)"
proof (cases "tokens a \<union> tokens b = {}")
  case True
  then show ?thesis
    by (simp add: calculate_similarity_unfold similarity_score_def jaccard_def)
next
  case False
  then have nz: "card (tokens a \<union> tokens b) \<noteq> 0"
    by (simp add: finite_tokens)
  have base: "py_truediv (card (tokens a \<inter> tokens b)) (card (tokens a \<union> tokens b))
                = Inr (jaccard a b)"
    using False nz by (simp add: py_truediv_def jaccard_def)
  have "jaccard a b \<le> 1" using jaccard_bounds by blast
  then have "min (jaccard a b) 1 = jaccard a b" by simp
  then show ?thesis
    using nz by (simp add: calculate_similarity_unfold base similarity_score_def)
qed

lemma similarity_score_bounds: "0 \<le> similarity_score a b \<and> similarity_score a b \<le> 1"
proof -
  have "0 \<le> jaccard a b" "jaccard a b \<le> 1" using jaccard_bounds by blast+
  then show ?thesis by (simp add: similarity_score_def)
qed






lemma keyword_in_both_commute: "keyword_in_both a b = keyword_in_both b a"
  by (auto simp: keyword_in_both_def)



text \<open>
  C2. \<^verbatim>\<open>calculate_similarity\<close> is total and bounded: for every pair of strings it returns a
  value (it raises nothing, in particular no \<^verbatim>\<open>ZeroDivisionError\<close>) between 0 and 1; when
  both token sets are empty, as for two empty strings, it returns 0.
\<close>

theorem calculate_similarity_total_bounded:
  "(\<exists>r. calculate_similarity a b = Inr r \<and> 0 \<le> r \<and> r \<le> 1) \<and>
   (tokens a \<union> tokens b = {} \<longrightarrow> calculate_similarity a b = Inr 0) \<and>
   calculate_similarity [] [] = Inr 0"
proof -
  have "\<exists>r. calculate_similarity a b = Inr r \<and> 0 \<le> r \<and> r \<le> 1"
    using similarity_score_bounds [of a b] by (simp add: calculate_similarity_score)
  moreover have "tokens a \<union> tokens b = {} \<longrightarrow> calculate_similarity a b = Inr 0"
    by (simp add: calculate_similarity_unfold)
  moreover have "calculate_similarity [] [] = Inr 0"
    by (simp add: calculate_similarity_def py_split_def py_lower_def)
  ultimately show ?thesis by blast
qed

theorem calculate_similarity_total_bounded_witness:
  "tokens '' '' \<union> tokens [CHR 0x09] = {} \<and>
   calculate_similarity '' '' [CHR 0x09] = Inr 0 \<and>
   (\<exists>r. calculate_similarity ''home phone'' ''phone home'' = Inr r \<and> 0 \<le> r \<and> r \<le> 1)"
proof -
  have e: "tokens '' '' \<union> tokens [CHR 0x09] = {}" by code_simp
  from calculate_similarity_total_bounded [of "'' ''" "[CHR 0x09]"] e
  have "calculate_similarity '' '' [CHR 0x09] = Inr 0" by simp
  moreover from calculate_similarity_total_bounded [of "''home phone''" "''phone home''"]
  have "\<exists>r. calculate_similarity ''home phone'' ''phone home'' = Inr r \<and> 0 \<le> r \<and> r \<le> 1"
    by simp
  ultimately show ?thesis using e by simp
qed

text \<open>
  C9. \<^verbatim>\<open>calculate_similarity\<close> is commutative: for every pair of strings,
  \<^verbatim>\<open>calculate_similarity(a, b) = calculate_similarity(b, a)\<close>.
\<close>

theorem calculate_similarity_commutative:
  "calculate_similarity a b = calculate_similarity b a"
  by (simp add: calculate_similarity_score similarity_score_def keyword_in_both_commute
      jaccard_def Int_commute Un_commute)

theorem calculate_similarity_commutative_witness:
  "calculate_similarity ''blue phone case'' ''red phone cover'' =
   calculate_similarity ''red phone cover'' ''blue phone case''"
  by (rule calculate_similarity_commutative)

section \<open>The scorer in floating point\<close>

text \<open>The function that the search handler calls raises nothing either, and returns the
  score of the doubles.\<close>

lemma calculate_similarity_float_unfold:
  "calculate_similarity_float a b =
     (if card (tokens a \<union> tokens b) = 0 then Inr 0
      else case py_truediv_float (card (tokens a \<inter> tokens b)) (card (tokens a \<union> tokens b)) of
             Inl e \<Rightarrow> Inl e
           | Inr base_similarity \<Rightarrow>
               Inr (min (if keyword_in_both a b
                         then py_float (base_similarity * py_float (13 / 10))
                         else base_similarity) 1))"
  unfolding calculate_similarity_float_def tokens_def keyword_in_both_def Let_def list_ex_iff
  by (rule refl)

lemma py_float_zero: "py_float 0 = 0"
  by (simp add: py_float_def)

lemma calculate_similarity_float_score:
  "calculate_similarity_float a b = Inr (float_score a b)"
proof (cases "tokens a \<union> tokens b = {}")
  case True
  then show ?thesis
    by (simp add: calculate_similarity_float_unfold float_score_def float_jaccard_def
        py_float_zero)
next
  case False
  then have nz: "card (tokens a \<union> tokens b) \<noteq> 0"
    by (simp add: finite_tokens)
  have base: "py_truediv_float (card (tokens a \<inter> tokens b)) (card (tokens a \<union> tokens b))
                = Inr (float_jaccard a b)"
    using False nz by (simp add: py_truediv_float_def float_jaccard_def py_float_zero)
  show ?thesis
    using nz by (simp add: calculate_similarity_float_unfold base float_score_def)
qed

lemma round_half_even_nonneg: "0 \<le> y \<Longrightarrow> 0 \<le> round_half_even y"
  by (simp add: round_half_even_def Let_def)

lemma pow2_pos: "0 < pow2 e"
  by (simp add: pow2_def)

lemma py_float_nonneg: "0 \<le> x \<Longrightarrow> 0 \<le> py_float x"
  by (simp add: py_float_def Let_def round_half_even_nonneg pow2_pos less_imp_le)

lemma float_jaccard_nonneg: "0 \<le> float_jaccard a b"
  by (simp add: float_jaccard_def py_float_nonneg)

text \<open>The properties of the exact scorer hold for the doubles as well: the score is between
  0 and 1, and it does not depend on the order of the arguments.\<close>

lemma float_score_bounds: "0 \<le> float_score a b \<and> float_score a b \<le> 1"
proof -
  have factor: "0 \<le> py_float (13 / 10)" by (rule py_float_nonneg) simp
  have "0 \<le> float_jaccard a b * py_float (13 / 10)"
    using float_jaccard_nonneg [of a b] factor by (rule mult_nonneg_nonneg)
  then have "0 \<le> py_float (float_jaccard a b * py_float (13 / 10))"
    by (rule py_float_nonneg)
  then show ?thesis
    using float_jaccard_nonneg [of a b] by (simp add: float_score_def)
qed

lemma calculate_similarity_float_commute:
  "calculate_similarity_float a b = calculate_similarity_float b a"
  by (simp add: calculate_similarity_float_score float_score_def float_jaccard_def
      keyword_in_both_commute Int_commute Un_commute)

text \<open>An input where the double and the exact score round differently: the exact score
  13/160 is a tie between 0.0812 and 0.0813 and would go to the even 0.0812; the double
  lies above the tie, and \<^verbatim>\<open>round\<close> gives 0.0813.\<close>

lemma float_rounding_example:
  "calculate_similarity phone_query phone_product_text = Inr (13 / 160) \<and>
   calculate_similarity_float phone_query phone_product_text =
     Inr (5854679515581645 / 72057594037927936) \<and>
   py_round (5854679515581645 / 72057594037927936) 4 = py_float (813 / 10000)"
  by code_simp

section \<open>Properties of the embedding cache\<close>

lemma get_product_embedding_hit:
  "product_embeddings_cache st (product_id q) = Some e \<Longrightarrow> get_product_embedding q st = (e, st)"
  by (simp add: get_product_embedding_def)

lemma get_product_embedding_keeps:
  "product_embeddings_cache st k = Some e \<Longrightarrow>
   product_embeddings_cache (snd (get_product_embedding q st)) k = Some e"
  by (auto simp: get_product_embedding_def Let_def split: option.splits)

lemma embedding_calls_keeps:
  "product_embeddings_cache st k = Some e \<Longrightarrow>
   product_embeddings_cache (embedding_calls ps st) k = Some e"
  by (induction ps arbitrary: st) (auto simp: get_product_embedding_keeps)

lemma get_product_embedding_PRODUCTS:
  "PRODUCTS (snd (get_product_embedding q st)) = PRODUCTS st"
  by (auto simp: get_product_embedding_def Let_def split: option.splits)

text \<open>
  C4. When the identifier of a product is not yet in the cache, the call of
  \<^verbatim>\<open>get_product_embedding\<close> returns \<open>lowercase(name + " " + category + " " + description)\<close> and
  stores it under the identifier, leaving every other cache entry and the catalog as they
  were; after any further calls, every call with the same identifier returns the same string
  and leaves the whole state (cache and catalog) unchanged.
\<close>

theorem get_product_embedding_cached:
  assumes first: "product_embeddings_cache st (product_id p) = None"
  shows "\<exists>st1. get_product_embedding p st =
                  (py_lower (name p @ '' '' @ category p @ '' '' @ description p), st1) \<and>
           product_embeddings_cache st1 (product_id p) =
             Some (py_lower (name p @ '' '' @ category p @ '' '' @ description p)) \<and>
           (\<forall>k. k \<noteq> product_id p \<longrightarrow>
                product_embeddings_cache st1 k = product_embeddings_cache st k) \<and>
           PRODUCTS st1 = PRODUCTS st \<and> GEMINI_ENABLED st1 = GEMINI_ENABLED st \<and>
           (\<forall>calls q. product_id q = product_id p \<longrightarrow>
              get_product_embedding q (embedding_calls calls st1) =
                (py_lower (name p @ '' '' @ category p @ '' '' @ description p),
                 embedding_calls calls st1))"
proof -
  let ?e = "py_lower (name p @ '' '' @ category p @ '' '' @ description p)"
  let ?st1 = "st\<lparr>product_embeddings_cache := (product_embeddings_cache st)(product_id p \<mapsto> ?e)\<rparr>"
  have call: "get_product_embedding p st = (?e, ?st1)"
    using first by (simp add: get_product_embedding_def Let_def)
  have stored: "product_embeddings_cache ?st1 (product_id p) = Some ?e" by simp
  have later: "get_product_embedding q (embedding_calls calls ?st1) = (?e, embedding_calls calls ?st1)"
    if "product_id q = product_id p" for calls q
    using that embedding_calls_keeps [OF stored, of calls]
    by (simp add: get_product_embedding_hit)
  show ?thesis
    using call stored later by (intro exI [of _ ?st1]) simp
qed

theorem get_product_embedding_cached_witness:
  "product_embeddings_cache example_state (product_id example_product) = None \<and>
   (\<exists>st1. get_product_embedding example_product example_state =
            (''red sneaker footwear running shoes'', st1) \<and>
          product_embeddings_cache st1 1 = Some ''red sneaker footwear running shoes'' \<and>
          (\<forall>calls q. product_id q = 1 \<longrightarrow>
             get_product_embedding q (embedding_calls calls st1) =
               (''red sneaker footwear running shoes'', embedding_calls calls st1)))"
proof -
  have first: "product_embeddings_cache example_state (product_id example_product) = None"
    by (simp add: example_state_def)
  have e: "py_lower (name example_product @ '' '' @ category example_product @ '' '' @
             description example_product) = ''red sneaker footwear running shoes''"
    by code_simp
  have i: "product_id example_product = 1" by (simp add: example_product_def)
  from get_product_embedding_cached [OF first] obtain st1 where
    "get_product_embedding example_product example_state =
       (''red sneaker footwear running shoes'', st1)"
    "product_embeddings_cache st1 1 = Some ''red sneaker footwear running shoes''"
    "\<forall>calls q. product_id q = 1 \<longrightarrow>
       get_product_embedding q (embedding_calls calls st1) =
         (''red sneaker footwear running shoes'', embedding_calls calls st1)"
    unfolding e i by blast
  with first show ?thesis by blast
qed

section \<open>Properties of the products listing\<close>

lemma same_ignoring_case_lower: "same_ignoring_case a b \<longleftrightarrow> py_lower a = py_lower b"
  unfolding same_ignoring_case_def py_lower_def
  by (induction a arbitrary: b) (auto simp: list_all2_Cons1)

text \<open>
  C8. For a non-empty category query, the listing returns exactly the products of the catalog
  whose category equals the query up to letter case, in catalog order, with a count equal to
  their number; a query that differs from it only in letter case returns the same result.
\<close>

theorem get_products_category_filter:
  assumes "c \<noteq> []"
  shows "get_products (Some c) st =
           (filter (\<lambda>p. same_ignoring_case (category p) c) (PRODUCTS st),
            length (filter (\<lambda>p. same_ignoring_case (category p) c) (PRODUCTS st))) \<and>
         (\<forall>c'. same_ignoring_case c' c \<longrightarrow> get_products (Some c') st = get_products (Some c) st)"
proof -
  have "c' \<noteq> [] \<and> py_lower c' = py_lower c" if "same_ignoring_case c' c" for c'
    using that assms by (auto simp: same_ignoring_case_lower py_lower_def)
  then show ?thesis
    using assms by (simp add: get_products_def same_ignoring_case_lower Let_def)
qed

theorem get_products_category_filter_witness:
  "''Footwear'' \<noteq> [] \<and> same_ignoring_case ''footwear'' ''Footwear'' \<and>
   get_products (Some ''Footwear'') example_state = ([example_product], 1) \<and>
   get_products (Some ''footwear'') example_state = get_products (Some ''Footwear'') example_state"
proof -
  have n: "''Footwear'' \<noteq> []" by simp
  have s: "same_ignoring_case ''footwear'' ''Footwear''"
    by code_simp
  have f: "filter (\<lambda>p. same_ignoring_case (category p) ''Footwear'') (PRODUCTS example_state)
             = [example_product]"
    by code_simp
  from get_products_category_filter [OF n, of example_state] s f show ?thesis
    by simp
qed

text \<open>
  C10. When the category parameter is present but empty, the listing is that of a request
  without the parameter: the full catalog with its length as count.
\<close>

theorem get_products_empty_category:
  "get_products (Some []) st = (PRODUCTS st, length (PRODUCTS st)) \<and>
   get_products (Some []) st = get_products None st"
  by (simp add: get_products_def)

theorem get_products_empty_category_witness:
  "get_products (Some []) example_state = ([example_lamp, example_product], 2)"
  using get_products_empty_category [of example_state] by (simp add: example_state_def)

section \<open>Properties of the search handler\<close>

text \<open>The loop returns the scored catalog and raises nothing.\<close>

lemma similarities_loop_scored:
  "similarities_loop q ps st acc = (Inr (acc @ scored_products q ps st), embedding_calls ps st)"
proof (induction ps arbitrary: st acc)
  case Nil
  show ?case by simp
next
  case (Cons p ps)
  show ?case
    by (simp add: Cons.IH calculate_similarity_float_score split: prod.splits)
qed

lemma map_product_scored: "map product (scored_products q ps st) = ps"
  by (induction ps arbitrary: st) simp_all

lemma mset_py_sort_reverse: "mset (py_sort_reverse f xs) = mset xs"
  by (simp add: py_sort_reverse_def)

lemma sorted_py_sort_reverse: "sorted_wrt (\<lambda>x y. f x \<ge> f y) (py_sort_reverse f xs)"
proof -
  have "sorted (map f (sort_key f (rev xs)))" by (rule sorted_sort_key)
  then have "sorted_wrt (\<lambda>x y. f x \<le> f y) (sort_key f (rev xs))"
    by (simp add: sorted_map)
  then show ?thesis
    by (simp add: py_sort_reverse_def sorted_wrt_rev)
qed

lemma stable_py_sort_reverse:
  "filter (\<lambda>y. f y = k) (py_sort_reverse f xs) = filter (\<lambda>y. f y = k) xs"
proof -
  have "filter (\<lambda>y. f y = k) (py_sort_reverse f xs) = rev (filter (\<lambda>y. f y = k) (sort_key f (rev xs)))"
    by (simp add: py_sort_reverse_def rev_filter)
  also have "\<dots> = rev (filter (\<lambda>y. f y = k) (rev xs))"
    by (simp only: sort_key_stable)
  also have "\<dots> = filter (\<lambda>y. f y = k) xs"
    by (simp add: rev_filter)
  finally show ?thesis .
qed

text \<open>
  C3, as stated, speaks of every request. A request is answered with an error before the
  ranking when its input stage fails, whatever the catalog: on the empty catalog, a request
  without an image file and without a JSON body gets the status 400 of the explicit guard, and
  the upload whose provider response is \<^verbatim>\<open>{"summary": 42}\<close> gets the status 500 of the
  \<^verbatim>\<open>TypeError\<close> in \<^verbatim>\<open>build_query_embedding\<close>; neither is a success with an empty result list.
\<close>

theorem search_products_every_request_counterexample:
  "fst (search_products example_loads example_repr no_image_request empty_catalog_state) =
     BadRequest ''No image file or URL provided'' \<and>
   fst (search_products example_loads example_repr summary_42_request empty_catalog_state) =
     SearchFailed TypeError"
  by code_simp

text \<open>
  C3, amended. For every request whose input stage yields an analysis and a query embedding,
  and every catalog: the response is a success; its result list is the first 20 entries of
  the list that pairs each product of the catalog with its score rounded to 4 decimal places,
  sorted in descending order of the rounded score, entries of equal score keeping their
  catalog order; \<^verbatim>\<open>total_results\<close> is the length of the returned list; for the empty catalog
  the results are \<open>[]\<close> and \<^verbatim>\<open>total_results\<close> is 0.
\<close>

theorem search_products_ranking:
  assumes "read_query json_loads repr req st = Inr (analysis, q)"
  shows "\<exists>full results.
           search_products json_loads repr req st =
             (SearchOK analysis results (length results), embedding_calls (PRODUCTS st) st) \<and>
           full = py_sort_reverse similarity (scored_products q (PRODUCTS st) st) \<and>
           results = take 20 full \<and>
           length results = min 20 (length (PRODUCTS st)) \<and>
           map product (scored_products q (PRODUCTS st) st) = PRODUCTS st \<and>
           mset full = mset (scored_products q (PRODUCTS st) st) \<and>
           sorted_wrt (\<lambda>x y. similarity x \<ge> similarity y) full \<and>
           sorted_wrt (\<lambda>x y. similarity x \<ge> similarity y) results \<and>
           (\<forall>s. filter (\<lambda>r. similarity r = s) full =
                  filter (\<lambda>r. similarity r = s) (scored_products q (PRODUCTS st) st)) \<and>
           (PRODUCTS st = [] \<longrightarrow> results = [] \<and> length results = 0)"
proof -
  let ?scored = "scored_products q (PRODUCTS st) st"
  let ?full = "py_sort_reverse similarity ?scored"
  let ?results = "take 20 ?full"
  have len_scored: "length ?scored = length (PRODUCTS st)"
    using map_product_scored [of q "PRODUCTS st" st] by (metis length_map)
  have len_full: "length ?full = length (PRODUCTS st)"
    using mset_py_sort_reverse [of similarity ?scored] len_scored by (metis size_mset)
  have run: "search_products json_loads repr req st =
               (SearchOK analysis ?results (length ?results), embedding_calls (PRODUCTS st) st)"
    using assms by (simp add: search_products_def similarities_loop_scored Let_def)
  have len: "length ?results = min 20 (length (PRODUCTS st))"
    using len_full by (simp add: min.commute)
  have sorted_full: "sorted_wrt (\<lambda>x y. similarity x \<ge> similarity y) ?full"
    by (rule sorted_py_sort_reverse)
  have sorted_results: "sorted_wrt (\<lambda>x y. similarity x \<ge> similarity y) ?results"
    using sorted_full by (rule sorted_wrt_take)
  have stable: "\<forall>s. filter (\<lambda>r. similarity r = s) ?full = filter (\<lambda>r. similarity r = s) ?scored"
    by (simp add: stable_py_sort_reverse)
  have empty: "PRODUCTS st = [] \<longrightarrow> ?results = [] \<and> length ?results = 0"
    by (simp add: py_sort_reverse_def)
  show ?thesis
    using run len map_product_scored [of q "PRODUCTS st" st]
      mset_py_sort_reverse [of similarity ?scored] sorted_full sorted_results stable empty
    by blast
qed

theorem search_products_ranking_witness:
  "read_query example_loads example_repr example_request example_state =
     Inr ([(''summary'', JString ''red running shoes''), (''category'', JString ''Footwear''),
           (''colors'', JArray []), (''materials'', JArray []), (''style'', JArray []),
           (''objects'', JArray []), (''suggested_tags'', JArray [])],
          ''red running shoes Footwear'') \<and>
   fst (search_products example_loads example_repr example_request example_state) =
     SearchOK [(''summary'', JString ''red running shoes''), (''category'', JString ''Footwear''),
               (''colors'', JArray []), (''materials'', JArray []), (''style'', JArray []),
               (''objects'', JArray []), (''suggested_tags'', JArray [])]
       [\<lparr>product = example_product, similarity = 1\<rparr>, \<lparr>product = example_lamp, similarity = 0\<rparr>] 2"
proof -
  have rq: "read_query example_loads example_repr example_request example_state =
     Inr ([(''summary'', JString ''red running shoes''), (''category'', JString ''Footwear''),
           (''colors'', JArray []), (''materials'', JArray []), (''style'', JArray []),
           (''objects'', JArray []), (''suggested_tags'', JArray [])],
          ''red running shoes Footwear'')"
    by code_simp
  have sc: "take 20 (py_sort_reverse similarity
               (scored_products ''red running shoes Footwear'' (PRODUCTS example_state) example_state))
       = [\<lparr>product = example_product, similarity = 1\<rparr>, \<lparr>product = example_lamp, similarity = 0\<rparr>]"
    by code_simp
  have len: "length (PRODUCTS example_state) = 2"
    by (simp add: example_state_def)
  from search_products_ranking [OF rq] sc len
  have "fst (search_products example_loads example_repr example_request example_state) =
     SearchOK [(''summary'', JString ''red running shoes''), (''category'', JString ''Footwear''),
               (''colors'', JArray []), (''materials'', JArray []), (''style'', JArray []),
               (''objects'', JArray []), (''suggested_tags'', JArray [])]
       [\<lparr>product = example_product, similarity = 1\<rparr>, \<lparr>product = example_lamp, similarity = 0\<rparr>] 2"
    by auto
  with rq show ?thesis by simp
qed

text \<open>The rounded score of the result list is that of the double: for the query
  \<open>phone_query\<close> and a product whose embedding is \<open>phone_product_text\<close> the entry carries
  0.0813, where the exact score 13/160 would have been rounded to 0.0812.\<close>

lemma scored_products_rounding_example:
  "fst (get_product_embedding example_phone empty_catalog_state) = phone_product_text \<and>
   scored_products phone_query [example_phone] empty_catalog_state =
     [\<lparr>product = example_phone, similarity = py_float (813 / 10000)\<rparr>]"
  by code_simp

section \<open>Properties of the image analyzer\<close>

lemma map_of_dict_set: "map_of (dict_set d k v) = (map_of d)(k \<mapsto> v)"
  by (induction d k v rule: dict_set.induct) (auto simp: fun_eq_iff)

lemma map_of_dict_setdefault:
  "map_of (dict_setdefault d k v) = (case map_of d k of Some old \<Rightarrow> map_of d | None \<Rightarrow> (map_of d)(k \<mapsto> v))"
  by (auto simp: dict_setdefault_def fun_eq_iff map_add_def split: option.splits)

lemma map_of_normalize_list_field:
  "map_of (normalize_list_field d k) =
     (map_of d)(k \<mapsto> (case map_of d k of Some (JArray xs) \<Rightarrow> JArray xs | _ \<Rightarrow> JArray []))"
  by (auto simp: normalize_list_field_def map_of_dict_set dict_get_def Let_def fun_eq_iff
      split: option.splits json.splits)

lemma normalize_list_field_is_list:
  "\<exists>xs. map_of (normalize_list_field d k) k = Some (JArray xs)"
  by (simp add: map_of_normalize_list_field split: option.splits json.splits)

lemma normalize_list_field_keeps_list:
  "map_of d j = Some (JArray xs) \<Longrightarrow> \<exists>ys. map_of (normalize_list_field d k) j = Some (JArray ys)"
  by (simp add: map_of_normalize_list_field split: option.splits json.splits)

lemma normalize_list_field_keeps_key:
  "map_of d j \<noteq> None \<Longrightarrow> map_of (normalize_list_field d k) j \<noteq> None"
  by (simp add: map_of_normalize_list_field)

lemma foldl_normalize_keeps_list:
  "map_of d j = Some (JArray xs) \<Longrightarrow> \<exists>ys. map_of (foldl normalize_list_field d ks) j = Some (JArray ys)"
proof (induction ks arbitrary: d xs)
  case Nil
  then show ?case by simp
next
  case (Cons k ks)
  from normalize_list_field_keeps_list [OF Cons.prems, of k]
  obtain ys where "map_of (normalize_list_field d k) j = Some (JArray ys)" by blast
  from Cons.IH [OF this] show ?case by simp
qed

lemma foldl_normalize_keeps_key:
  "map_of d j \<noteq> None \<Longrightarrow> map_of (foldl normalize_list_field d ks) j \<noteq> None"
proof (induction ks arbitrary: d)
  case Nil
  then show ?case by simp
next
  case (Cons k ks)
  from normalize_list_field_keeps_key [OF Cons.prems, of k]
  have "map_of (normalize_list_field d k) j \<noteq> None" .
  from Cons.IH [OF this] show ?case by simp
qed

lemma foldl_normalize_is_list:
  "k \<in> set ks \<Longrightarrow> \<exists>xs. map_of (foldl normalize_list_field d ks) k = Some (JArray xs)"
proof (induction ks arbitrary: d)
  case Nil
  then show ?case by simp
next
  case (Cons a ks)
  show ?case
  proof (cases "k = a")
    case True
    from normalize_list_field_is_list [of d a]
    obtain xs where "map_of (normalize_list_field d a) a = Some (JArray xs)" by blast
    from foldl_normalize_keeps_list [OF this, of ks] True show ?thesis by simp
  next
    case False
    with Cons.prems have "k \<in> set ks" by simp
    from Cons.IH [OF this] show ?thesis by simp
  qed
qed

text \<open>What the normalisation guarantees: both keys are present and each list field is a list.\<close>

lemma normalize_analysis_fields:
  assumes "normalize_analysis v = Inr d"
  shows "map_of d ''summary'' \<noteq> None \<and> map_of d ''category'' \<noteq> None \<and>
         (\<forall>k \<in> set list_fields. \<exists>xs. map_of d k = Some (JArray xs))"
proof -
  from assms obtain d0 where v: "v = JObject d0"
    by (cases v) (simp_all add: normalize_analysis_def)
  let ?d1 = "dict_setdefault d0 ''summary'' (JString [])"
  let ?d2 = "dict_setdefault ?d1 ''category'' (JString ''Unknown'')"
  from assms v have d: "d = foldl normalize_list_field ?d2 list_fields"
    by (simp add: normalize_analysis_def Let_def)
  have s1: "map_of ?d1 ''summary'' \<noteq> None"
    by (simp add: map_of_dict_setdefault split: option.splits)
  then have s2: "map_of ?d2 ''summary'' \<noteq> None"
    by (simp add: map_of_dict_setdefault [of ?d1] split: option.splits)
  have c2: "map_of ?d2 ''category'' \<noteq> None"
    by (simp add: map_of_dict_setdefault [of ?d1] split: option.splits)
  show ?thesis
    unfolding d using foldl_normalize_keeps_key [OF s2] foldl_normalize_keeps_key [OF c2]
      foldl_normalize_is_list by blast
qed

lemma fallback_description_fields:
  "map_of (fallback_description s) ''summary'' = Some (JString s) \<and>
   map_of (fallback_description s) ''category'' = Some (JString ''Unknown'') \<and>
   (\<forall>k \<in> set list_fields. map_of (fallback_description s) k = Some (JArray []))"
  by (simp add: fallback_description_def list_fields_def)

lemma analyze_image_fields:
  assumes "analyze_image json_loads enabled outcome = (calls, r)"
  shows "\<exists>d. r = Inr d \<and> map_of d ''summary'' \<noteq> None \<and> map_of d ''category'' \<noteq> None \<and>
             (\<forall>k \<in> set list_fields. \<exists>xs. map_of d k = Some (JArray xs))"
proof (cases "enabled")
  case False
  with assms have "r = Inr (fallback_description ''Image uploaded. AI analysis is unavailable in offline mode.'')"
    by (simp add: analyze_image_def)
  then show ?thesis using fallback_description_fields by simp
next
  case True
  show ?thesis
  proof (cases "analyze_image_try json_loads outcome")
    case (Inl e)
    with True assms have "r = Inr (fallback_description ''Unable to analyze image at this time.'')"
      by (simp add: analyze_image_def)
    then show ?thesis using fallback_description_fields by simp
  next
    case (Inr d)
    with True assms have r: "r = Inr d" by (auto simp: analyze_image_def)
    from Inr obtain v where "normalize_analysis v = Inr d"
      by (auto simp: analyze_image_try_def Let_def split: provider_outcome.splits)
    from normalize_analysis_fields [OF this] r show ?thesis by simp
  qed
qed

text \<open>
  C7. \<^verbatim>\<open>analyze_image\<close> never raises: it returns a description for every provider outcome.
  Without the credential it returns the offline fallback and makes no provider call; with
  it, every exception of the provider call or of the response handling gives the fallback
  \<^verbatim>\<open>Unable to analyze image at this time.\<close>; a raising provider call is such an exception;
  every fallback has category \<^verbatim>\<open>Unknown\<close> and five empty lists.
\<close>

theorem analyze_image_never_raises:
  "(\<exists>calls analysis. analyze_image json_loads enabled outcome = (calls, Inr analysis)) \<and>
   analyze_image json_loads False outcome =
     (0, Inr (fallback_description ''Image uploaded. AI analysis is unavailable in offline mode.'')) \<and>
   (\<forall>e. analyze_image_try json_loads outcome = Inl e \<longrightarrow>
        analyze_image json_loads True outcome =
          (1, Inr (fallback_description ''Unable to analyze image at this time.''))) \<and>
   analyze_image_try json_loads ProviderRaises = Inl ProviderError \<and>
   (\<forall>summary. dict_get (fallback_description summary) ''category'' JNull = JString ''Unknown'' \<and>
      (\<forall>k \<in> set list_fields. dict_get (fallback_description summary) k JNull = JArray []))"
proof -
  have "\<exists>calls analysis. analyze_image json_loads enabled outcome = (calls, Inr analysis)"
    by (simp add: analyze_image_def split: sum.splits)
  moreover have "analyze_image json_loads False outcome =
     (0, Inr (fallback_description ''Image uploaded. AI analysis is unavailable in offline mode.''))"
    by (simp add: analyze_image_def)
  moreover have "\<forall>e. analyze_image_try json_loads outcome = Inl e \<longrightarrow>
        analyze_image json_loads True outcome =
          (1, Inr (fallback_description ''Unable to analyze image at this time.''))"
    by (simp add: analyze_image_def)
  moreover have "analyze_image_try json_loads ProviderRaises = Inl ProviderError"
    by (simp add: analyze_image_try_def)
  moreover have "\<forall>summary. dict_get (fallback_description summary) ''category'' JNull = JString ''Unknown'' \<and>
      (\<forall>k \<in> set list_fields. dict_get (fallback_description summary) k JNull = JArray [])"
    by (simp add: dict_get_def fallback_description_def list_fields_def)
  ultimately show ?thesis by blast
qed

theorem analyze_image_never_raises_witness:
  "analyze_image_try example_loads (ProviderText (Some ''[1, 2]'')) = Inl AttributeError \<and>
   analyze_image example_loads True (ProviderText (Some ''[1, 2]'')) =
     (1, Inr (fallback_description ''Unable to analyze image at this time.'')) \<and>
   analyze_image example_loads True ProviderRaises =
     (1, Inr (fallback_description ''Unable to analyze image at this time.'')) \<and>
   analyze_image example_loads False ProviderRaises =
     (0, Inr (fallback_description ''Image uploaded. AI analysis is unavailable in offline mode.'')) \<and>
   ''colors'' \<in> set list_fields \<and>
   dict_get (fallback_description ''Unable to analyze image at this time.'') ''colors'' JNull = JArray []"
proof -
  have a: "analyze_image_try example_loads (ProviderText (Some ''[1, 2]'')) = Inl AttributeError"
    by code_simp
  have c: "''colors'' \<in> set list_fields" by (simp add: list_fields_def)
  note t1 = analyze_image_never_raises [of example_loads True "ProviderText (Some ''[1, 2]'')"]
  note t2 = analyze_image_never_raises [of example_loads True ProviderRaises]
  from t1 a have "analyze_image example_loads True (ProviderText (Some ''[1, 2]'')) =
     (1, Inr (fallback_description ''Unable to analyze image at this time.''))" by blast
  moreover from t2 have "analyze_image example_loads True ProviderRaises =
     (1, Inr (fallback_description ''Unable to analyze image at this time.''))" by blast
  moreover from t2 have "analyze_image example_loads False ProviderRaises =
     (0, Inr (fallback_description ''Image uploaded. AI analysis is unavailable in offline mode.''))"
    by blast
  moreover from t2 c have "dict_get (fallback_description ''Unable to analyze image at this time.'') ''colors'' JNull = JArray []"
    by blast
  ultimately show ?thesis using a c by blast
qed

text \<open>
  C5. The claim: for every provider outcome the description returned by \<^verbatim>\<open>analyze_image\<close>
  has a summary string and a category string, and each of the five list fields is a list.
  The keys and the lists are guaranteed (\<open>analyze_image_fields\<close>), the strings are not:
  \<^verbatim>\<open>setdefault\<close> keeps whatever value the provider's JSON gives to \<^verbatim>\<open>summary\<close>. For the
  response text \<^verbatim>\<open>{"summary": 42}\<close> the returned summary is the number 42, and
  \<^verbatim>\<open>build_query_embedding\<close> raises \<^verbatim>\<open>TypeError\<close> on the returned description.
\<close>

theorem analyze_image_summary_not_string:
  "analyze_image example_loads True (ProviderText (Some summary_42_text)) =
     (1, Inr [(''summary'', JNumber 42), (''category'', JString ''Unknown''),
              (''colors'', JArray []), (''materials'', JArray []), (''style'', JArray []),
              (''objects'', JArray []), (''suggested_tags'', JArray [])]) \<and>
   \<not> is_str (JNumber 42) \<and>
   build_query_embedding example_repr
     [(''summary'', JNumber 42), (''category'', JString ''Unknown''),
      (''colors'', JArray []), (''materials'', JArray []), (''style'', JArray []),
      (''objects'', JArray []), (''suggested_tags'', JArray [])] = Inl TypeError"
  by code_simp

section \<open>Properties of the query embedder\<close>

lemma filter_truthy_strings:
  "filter py_truthy (map JString xs) = map JString (filter (\<lambda>part. part \<noteq> []) xs)"
  by (induction xs) simp_all

lemma join_parts_strings: "join_parts (map JString xs) = Inr (py_join '' '' xs)"
proof -
  have "list_all is_str (map JString xs)" by (induction xs) simp_all
  moreover have "map the_str (map JString xs) = xs" by (induction xs) simp_all
  ultimately show ?thesis by (simp add: join_parts_def)
qed

lemma join_str_field_list:
  "join_str_field repr (JArray xs) = Inr (JString (py_join '' '' (map (py_str repr) xs)))"
  by (simp add: join_str_field_def)

lemma build_query_embedding_parts:
  assumes "dict_get d ''summary'' (JString []) = JString summary"
    and "dict_get d ''category'' (JString []) = JString category_text"
    and "dict_get d ''colors'' (JArray []) = JArray colors"
    and "dict_get d ''materials'' (JArray []) = JArray materials"
    and "dict_get d ''style'' (JArray []) = JArray style"
    and "dict_get d ''objects'' (JArray []) = JArray objects"
    and "dict_get d ''suggested_tags'' (JArray []) = JArray suggested_tags"
  shows "build_query_embedding repr d =
           Inr (py_strip (py_join '' '' (filter (\<lambda>part. part \<noteq> [])
                  [summary, category_text,
                   py_join '' '' (map (py_str repr) colors),
                   py_join '' '' (map (py_str repr) materials),
                   py_join '' '' (map (py_str repr) style),
                   py_join '' '' (map (py_str repr) objects),
                   py_join '' '' (map (py_str repr) suggested_tags)])))"
proof -
  let ?parts = "[summary, category_text,
                   py_join '' '' (map (py_str repr) colors),
                   py_join '' '' (map (py_str repr) materials),
                   py_join '' '' (map (py_str repr) style),
                   py_join '' '' (map (py_str repr) objects),
                   py_join '' '' (map (py_str repr) suggested_tags)]"
  have unfold: "build_query_embedding repr d =
      (case join_parts (filter py_truthy (map JString ?parts)) of
         Inl e \<Rightarrow> Inl e | Inr joined \<Rightarrow> Inr (py_strip joined))"
    unfolding build_query_embedding_def assms join_str_field_list by (simp add: Let_def)
  show ?thesis
    unfolding unfold filter_truthy_strings join_parts_strings by simp
qed

text \<open>
  C6. For a structured description (summary and category strings, the five list fields lists;
  a missing key counts as empty), \<^verbatim>\<open>build_query_embedding\<close> returns the query embedding of
  the specification: the fields in the order summary, category, colors, materials, style,
  objects, suggested_tags, each list field the space-joined string of its stringified elements,
  empty parts skipped, the rest joined by single spaces and trimmed. With an empty materials
  list the result is built from the other six parts only.
\<close>

theorem build_query_embedding_spec:
  assumes "dict_get d ''summary'' (JString []) = JString summary"
    and "dict_get d ''category'' (JString []) = JString category_text"
    and "dict_get d ''colors'' (JArray []) = JArray colors"
    and "dict_get d ''materials'' (JArray []) = JArray materials"
    and "dict_get d ''style'' (JArray []) = JArray style"
    and "dict_get d ''objects'' (JArray []) = JArray objects"
    and "dict_get d ''suggested_tags'' (JArray []) = JArray suggested_tags"
  shows "build_query_embedding repr d =
           Inr (spec_query_embedding summary category_text
                  (map (py_str repr) colors) (map (py_str repr) materials)
                  (map (py_str repr) style) (map (py_str repr) objects)
                  (map (py_str repr) suggested_tags)) \<and>
         (materials = [] \<longrightarrow>
            build_query_embedding repr d =
              Inr (py_strip (py_join '' '' (filter (\<lambda>part. part \<noteq> [])
                     [summary, category_text,
                      py_join '' '' (map (py_str repr) colors),
                      py_join '' '' (map (py_str repr) style),
                      py_join '' '' (map (py_str repr) objects),
                      py_join '' '' (map (py_str repr) suggested_tags)]))))"
  using build_query_embedding_parts [OF assms, of repr]
  by (simp add: spec_query_embedding_def)

theorem build_query_embedding_spec_witness:
  "dict_get example_description ''summary'' (JString []) = JString ''A red shoe.'' \<and>
   dict_get example_description ''category'' (JString []) = JString ''Footwear'' \<and>
   dict_get example_description ''colors'' (JArray []) = JArray [JString ''red'', JString ''white''] \<and>
   dict_get example_description ''materials'' (JArray []) = JArray [] \<and>
   dict_get example_description ''style'' (JArray []) = JArray [JString ''sporty''] \<and>
   dict_get example_description ''objects'' (JArray []) = JArray [] \<and>
   dict_get example_description ''suggested_tags'' (JArray []) = JArray [JString ''shoe'', JNumber 3] \<and>
   build_query_embedding example_repr example_description =
     Inr ''A red shoe. Footwear red white sporty shoe ?''"
proof -
  have h: "dict_get example_description ''summary'' (JString []) = JString ''A red shoe.''"
    "dict_get example_description ''category'' (JString []) = JString ''Footwear''"
    "dict_get example_description ''colors'' (JArray []) = JArray [JString ''red'', JString ''white'']"
    "dict_get example_description ''materials'' (JArray []) = JArray []"
    "dict_get example_description ''style'' (JArray []) = JArray [JString ''sporty'']"
    "dict_get example_description ''objects'' (JArray []) = JArray []"
    "dict_get example_description ''suggested_tags'' (JArray []) = JArray [JString ''shoe'', JNumber 3]"
    by (simp_all add: dict_get_def example_description_def)
  have v: "spec_query_embedding ''A red shoe.'' ''Footwear''
             (map (py_str example_repr) [JString ''red'', JString ''white''])
             (map (py_str example_repr) [])
             (map (py_str example_repr) [JString ''sporty''])
             (map (py_str example_repr) [])
             (map (py_str example_repr) [JString ''shoe'', JNumber 3])
           = ''A red shoe. Footwear red white sporty shoe ?''"
    by code_simp
  from build_query_embedding_spec [OF h, of example_repr]
  have "build_query_embedding example_repr example_description =
     Inr (spec_query_embedding ''A red shoe.'' ''Footwear''
             (map (py_str example_repr) [JString ''red'', JString ''white''])
             (map (py_str example_repr) [])
             (map (py_str example_repr) [JString ''sporty''])
             (map (py_str example_repr) [])
             (map (py_str example_repr) [JString ''shoe'', JNumber 3]))"
    by blast
  then have "build_query_embedding example_repr example_description =
     Inr ''A red shoe. Footwear red white sporty shoe ?''"
    by (simp only: v)
  with h show ?thesis by simp
qed

end
